theory Spec2Isabelle
  imports Main "HOL-Library.AList"
begin

section \<open>Values of the runtime\<close>

text \<open>
  The class \<^verbatim>\<open>MemcachedWrapper\<close> of \<^verbatim>\<open>src/Memcached.js\<close> is dynamically typed.
  Its values are modelled by one datatype. A number is \<open>NaN\<close> or an integer:
  fractions, the infinities and negative zero are not values of the model. A string
  is the list of its UTF-16 code units, which is what \<^verbatim>\<open>length\<close> counts and what a
  regular expression without the \<^verbatim>\<open>u\<close> flag matches on. An object is the list of its
  own properties; the order of the list stands for no observation that the class
  makes. \<open>Builtin f\<close> is the value that a plain object inherits under the name \<open>f\<close>
  from \<^verbatim>\<open>Object.prototype\<close> (a function, or for \<^verbatim>\<open>__proto__\<close> the prototype).
\<close>

datatype jsnum = NaN | Fin int

type_synonym jstring = "nat list"

definition str :: "string \<Rightarrow> jstring" where
  "str s = map of_char s"

datatype jsval =
    Undefined
  | Null
  | Bool bool
  | Num jsnum
  | Str jstring
  | Arr "jsval list"
  | Obj "(jstring \<times> jsval) list"
  | Builtin jstring

text \<open>
  What a call can throw: \<^verbatim>\<open>new Error(message)\<close> of the class itself, a
  \<^verbatim>\<open>TypeError\<close> of the runtime, and \<open>Unmodelled\<close> where a call leaves the part of
  the runtime that is modelled here (a property read on an array or a string,
  \<^verbatim>\<open>JSON.parse\<close> of an entry that \<^verbatim>\<open>JSON.stringify\<close> did not write).
\<close>

datatype error = Error string | TypeError | Unmodelled

text \<open>Truthiness, as \<^verbatim>\<open>if (x)\<close> and \<^verbatim>\<open>!x\<close> read a value.\<close>

fun num_truthy :: "jsnum \<Rightarrow> bool" where
  "num_truthy NaN = False"
| "num_truthy (Fin i) = (i \<noteq> 0)"

fun truthy :: "jsval \<Rightarrow> bool" where
  "truthy Undefined = False"
| "truthy Null = False"
| "truthy (Bool b) = b"
| "truthy (Num n) = num_truthy n"
| "truthy (Str s) = (s \<noteq> [])"
| "truthy (Arr xs) = True"
| "truthy (Obj kvs) = True"
| "truthy (Builtin f) = True"

text \<open>
  The numeric arguments (\<^verbatim>\<open>ttl\<close>, \<^verbatim>\<open>index\<close>, \<^verbatim>\<open>start\<close>, \<^verbatim>\<open>end\<close>) are documented as
  numbers and may be left out: \<open>None\<close> is \<^verbatim>\<open>undefined\<close>. \<^verbatim>\<open>Number(x)\<close> on them:
\<close>

fun Number :: "jsnum option \<Rightarrow> jsnum" where
  "Number None = NaN"
| "Number (Some n) = n"

text \<open>\<^verbatim>\<open>x >= 0\<close>: false on \<open>NaN\<close>.\<close>

fun ge_zero :: "jsnum \<Rightarrow> bool" where
  "ge_zero NaN = False"
| "ge_zero (Fin i) = (0 \<le> i)"

subsection \<open>Properties of a plain object\<close>

definition Object_prototype :: "jstring list" where
  "Object_prototype = map str
     [''constructor'', ''__defineGetter__'', ''__defineSetter__'', ''hasOwnProperty'',
      ''__lookupGetter__'', ''__lookupSetter__'', ''isPrototypeOf'',
      ''propertyIsEnumerable'', ''toString'', ''valueOf'', ''__proto__'',
      ''toLocaleString'']"

text \<open>
  \<^verbatim>\<open>hash[field]\<close> for a string \<open>field\<close>: an own property, else what the object
  inherits from \<^verbatim>\<open>Object.prototype\<close>, else \<^verbatim>\<open>undefined\<close>. On \<^verbatim>\<open>undefined\<close> and
  \<^verbatim>\<open>null\<close> the read throws.
\<close>

fun prop_get :: "jsval \<Rightarrow> jstring \<Rightarrow> error + jsval" where
  "prop_get Undefined f = Inl TypeError"
| "prop_get Null f = Inl TypeError"
| "prop_get (Obj kvs) f =
     (case map_of kvs f of
        Some v \<Rightarrow> Inr v
      | None \<Rightarrow> if f \<in> set Object_prototype then Inr (Builtin f) else Inr Undefined)"
| "prop_get v f = Inl Unmodelled"

text \<open>
  \<^verbatim>\<open>hash[field]\<close> for any \<open>field\<close>: the base is checked before the field is turned
  into a property name; only string fields are modelled beyond that.
\<close>

fun index_get :: "jsval \<Rightarrow> jsval \<Rightarrow> error + jsval" where
  "index_get Undefined field = Inl TypeError"
| "index_get Null field = Inl TypeError"
| "index_get hash (Str f) = prop_get hash f"
| "index_get hash field = Inl Unmodelled"

text \<open>
  \<^verbatim>\<open>hash[field] = data\<close> for a string \<open>field\<close>. A plain object without an own
  property \<^verbatim>\<open>__proto__\<close> hands that assignment to the setter it inherits, which
  changes the prototype at most and adds no own property.
\<close>

fun prop_set :: "jsval \<Rightarrow> jstring \<Rightarrow> jsval \<Rightarrow> error + jsval" where
  "prop_set Undefined f data = Inl TypeError"
| "prop_set Null f data = Inl TypeError"
| "prop_set (Obj kvs) f data =
     (if f = str ''__proto__'' \<and> map_of kvs f = None then Inr (Obj kvs)
      else Inr (Obj (AList.update f data kvs)))"
| "prop_set v f data = Inl Unmodelled"

text \<open>\<^verbatim>\<open>delete hash[field]\<close> for a string \<open>field\<close>.\<close>

fun prop_delete :: "jsval \<Rightarrow> jstring \<Rightarrow> error + jsval" where
  "prop_delete Undefined f = Inl TypeError"
| "prop_delete Null f = Inl TypeError"
| "prop_delete (Obj kvs) f = Inr (Obj (AList.delete f kvs))"
| "prop_delete v f = Inl Unmodelled"

fun index_delete :: "jsval \<Rightarrow> jsval \<Rightarrow> error + jsval" where
  "index_delete Undefined field = Inl TypeError"
| "index_delete Null field = Inl TypeError"
| "index_delete hash (Str f) = prop_delete hash f"
| "index_delete hash field = Inl Unmodelled"

subsection \<open>Arrays\<close>

text \<open>
  Arithmetic on numbers propagates \<open>NaN\<close>; an array method reads a numeric argument
  through \<^verbatim>\<open>ToIntegerOrInfinity\<close>, which takes \<open>NaN\<close> to 0.
\<close>

fun num_add :: "jsnum \<Rightarrow> jsnum \<Rightarrow> jsnum" where
  "num_add (Fin a) (Fin b) = Fin (a + b)"
| "num_add a b = NaN"

fun num_sub :: "jsnum \<Rightarrow> jsnum \<Rightarrow> jsnum" where
  "num_sub (Fin a) (Fin b) = Fin (a - b)"
| "num_sub a b = NaN"

fun to_integer :: "jsnum \<Rightarrow> int" where
  "to_integer NaN = 0"
| "to_integer (Fin i) = i"

text \<open>A relative index of \<^verbatim>\<open>slice\<close> and \<^verbatim>\<open>splice\<close>: negative counts from the end.\<close>

definition rel_index :: "int \<Rightarrow> nat \<Rightarrow> nat" where
  "rel_index i len = (if i < 0 then nat (max (int len + i) 0) else min (nat i) len)"

definition slice :: "'a list \<Rightarrow> jsnum \<Rightarrow> jsnum \<Rightarrow> 'a list" where
  "slice xs start fin =
     (let k = rel_index (to_integer start) (length xs);
          final = rel_index (to_integer fin) (length xs)
      in take (final - k) (drop k xs))"

definition slice_from :: "'a list \<Rightarrow> jsnum \<Rightarrow> 'a list" where
  "slice_from xs start = drop (rel_index (to_integer start) (length xs)) xs"

text \<open>What \<^verbatim>\<open>splice\<close> leaves in the array (the class drops what it returns).\<close>

definition splice :: "'a list \<Rightarrow> jsnum \<Rightarrow> jsnum \<Rightarrow> 'a list" where
  "splice xs start deleteCount =
     (let k = rel_index (to_integer start) (length xs);
          d = min (nat (max (to_integer deleteCount) 0)) (length xs - k)
      in take k xs @ drop (k + d) xs)"

definition splice_from :: "'a list \<Rightarrow> jsnum \<Rightarrow> 'a list" where
  "splice_from xs start = take (rel_index (to_integer start) (length xs)) xs"

text \<open>
  \<^verbatim>\<open>list[itemIndex]\<close> and \<^verbatim>\<open>list[itemIndex] = data\<close> on an array. A number that is not
  an array index (negative, or from \<open>2\<^sup>3\<^sup>2 - 1\<close> on) names an ordinary property:
  reading it gives \<^verbatim>\<open>undefined\<close>, and writing it leaves the elements as they are. A
  write past the end fills the gap with holes, which read as \<^verbatim>\<open>undefined\<close>.
\<close>

fun array_get :: "jsval \<Rightarrow> jsnum \<Rightarrow> error + jsval" where
  "array_get Undefined n = Inl TypeError"
| "array_get Null n = Inl TypeError"
| "array_get (Arr xs) (Fin i) =
     Inr (if 0 \<le> i \<and> i < int (length xs) then xs ! nat i else Undefined)"
| "array_get (Arr xs) NaN = Inr Undefined"
| "array_get v n = Inl Unmodelled"

fun array_set :: "jsval \<Rightarrow> jsnum \<Rightarrow> jsval \<Rightarrow> error + jsval" where
  "array_set Undefined n data = Inl TypeError"
| "array_set Null n data = Inl TypeError"
| "array_set (Arr xs) (Fin i) data =
     (if 0 \<le> i \<and> i < 4294967295
      then Inr (Arr ((xs @ replicate (Suc (nat i) - length xs) Undefined)[nat i := data]))
      else Inr (Arr xs))"
| "array_set (Arr xs) NaN data = Inr (Arr xs)"
| "array_set v n data = Inl Unmodelled"

text \<open>
  \<^verbatim>\<open>list.push(data)\<close> and \<^verbatim>\<open>list.unshift(data)\<close>: only an array has these methods, on
  every other value the call throws.
\<close>

fun array_push :: "jsval \<Rightarrow> jsval \<Rightarrow> error + jsval" where
  "array_push (Arr xs) data = Inr (Arr (xs @ [data]))"
| "array_push v data = Inl TypeError"

fun array_unshift :: "jsval \<Rightarrow> jsval \<Rightarrow> error + jsval" where
  "array_unshift (Arr xs) data = Inr (Arr (data # xs))"
| "array_unshift v data = Inl TypeError"

text \<open>The elements of a decoded list, for \<^verbatim>\<open>length\<close>, \<^verbatim>\<open>slice\<close> and \<^verbatim>\<open>splice\<close>.\<close>

fun elements :: "jsval \<Rightarrow> error + jsval list" where
  "elements Undefined = Inl TypeError"
| "elements Null = Inl TypeError"
| "elements (Arr xs) = Inr xs"
| "elements v = Inl Unmodelled"

section \<open>The codec\<close>

text \<open>
  The backend holds what \<^verbatim>\<open>set\<close> was given: a value as it is (\<open>Val\<close>), or a JSON text
  (\<open>Text\<close>). \<^verbatim>\<open>JSON.stringify\<close> and \<^verbatim>\<open>JSON.parse\<close> belong to the runtime. A JSON text is
  represented by the value that \<^verbatim>\<open>JSON.parse\<close> reads from it, so that the text that
  \<^verbatim>\<open>JSON.stringify\<close> writes for \<open>v\<close> is \<open>Text (json_of v)\<close>: a property whose value is
  \<^verbatim>\<open>undefined\<close> or a function is left out, such an element of an array becomes
  \<^verbatim>\<open>null\<close>, and so does \<open>NaN\<close>. A JSON text is a string, and never the empty one.
\<close>

datatype payload = Val jsval | Text jsval

fun payload_truthy :: "payload \<Rightarrow> bool" where
  "payload_truthy (Val v) = truthy v"
| "payload_truthy (Text v) = True"

fun serializable :: "jsval \<Rightarrow> bool" where
  "serializable Undefined = False"
| "serializable (Builtin f) = False"
| "serializable v = True"

fun json_of :: "jsval \<Rightarrow> jsval"
  and json_elems :: "jsval list \<Rightarrow> jsval list"
  and json_props :: "(jstring \<times> jsval) list \<Rightarrow> (jstring \<times> jsval) list" where
  "json_of (Num NaN) = Null"
| "json_of (Arr xs) = Arr (json_elems xs)"
| "json_of (Obj kvs) = Obj (json_props kvs)"
| "json_of v = v"
| "json_elems [] = []"
| "json_elems (x # xs) = (if serializable x then json_of x else Null) # json_elems xs"
| "json_props [] = []"
| "json_props ((k, v) # kvs) =
     (if serializable v then (k, json_of v) # json_props kvs else json_props kvs)"

definition JSON_stringify :: "jsval \<Rightarrow> payload" where
  "JSON_stringify v = (if serializable v then Text (json_of v) else Val Undefined)"

fun JSON_parse :: "payload \<Rightarrow> error + jsval" where
  "JSON_parse (Text v) = Inr v"
| "JSON_parse (Val v) = Inl Unmodelled"

text \<open>
  The values that JSON represents: no \<^verbatim>\<open>undefined\<close>, function or \<open>NaN\<close> anywhere, and
  no property name twice in an object.
\<close>

fun json_value :: "jsval \<Rightarrow> bool"
  and json_values :: "jsval list \<Rightarrow> bool"
  and json_members :: "(jstring \<times> jsval) list \<Rightarrow> bool" where
  "json_value Undefined = False"
| "json_value (Builtin f) = False"
| "json_value (Num n) = (n \<noteq> NaN)"
| "json_value (Arr xs) = json_values xs"
| "json_value (Obj kvs) = (distinct (map fst kvs) \<and> json_members kvs)"
| "json_value v = True"
| "json_values [] = True"
| "json_values (x # xs) = (json_value x \<and> json_values xs)"
| "json_members [] = True"
| "json_members ((k, v) # kvs) = (json_value v \<and> json_members kvs)"

section \<open>The backend\<close>

text \<open>
  The driver (the package \<^verbatim>\<open>memcached\<close>) is not part of the repository. The class
  reaches it through the three promisified methods \<^verbatim>\<open>getAsync\<close>, \<^verbatim>\<open>setAsync\<close> and
  \<^verbatim>\<open>delAsync\<close>. It is modelled as a store from keys to entries that answers every
  call: no network failure, no expiry, no limit of the driver's own. A miss reads as
  \<^verbatim>\<open>null\<close>, as the comment on \<^verbatim>\<open>get\<close> has it (the class only tests the value for
  truthiness), a completed write as \<^verbatim>\<open>true\<close>, and a removal as whether the key was
  there (the class drops that answer). The state also records the calls the driver
  received, in order.
\<close>

datatype call =
    GetCall jsval
  | SetCall jsval payload "jsnum option"
  | DelCall jsval

record backend =
  store :: "jsval \<Rightarrow> payload option"
  calls :: "call list"

text \<open>
  An asynchronous method takes the state of the backend and returns what its promise
  settles to (\<open>Inl\<close> a rejection, \<open>Inr\<close> the value) with the state it leaves. The
  methods run one after the other: no other writer takes a turn between two calls.
\<close>

type_synonym 'a promise = "backend \<Rightarrow> (error + 'a) \<times> backend"

definition return :: "'a \<Rightarrow> 'a promise" where
  "return v s = (Inr v, s)"

definition throw :: "error \<Rightarrow> 'a promise" where
  "throw e s = (Inl e, s)"

definition lift :: "error + 'a \<Rightarrow> 'a promise" where
  "lift r s = (r, s)"

definition await :: "'a promise \<Rightarrow> ('a \<Rightarrow> 'b promise) \<Rightarrow> 'b promise" where
  "await m f s = (case m s of (Inl e, s') \<Rightarrow> (Inl e, s') | (Inr v, s') \<Rightarrow> f v s')"

definition getAsync :: "jsval \<Rightarrow> payload promise" where
  "getAsync key s =
     (Inr (case store s key of None \<Rightarrow> Val Null | Some p \<Rightarrow> p),
      s\<lparr>calls := calls s @ [GetCall key]\<rparr>)"

definition setAsync :: "jsval \<Rightarrow> payload \<Rightarrow> jsnum option \<Rightarrow> jsval promise" where
  "setAsync key data ttl s =
     (Inr (Bool True),
      s\<lparr>store := (store s)(key \<mapsto> data), calls := calls s @ [SetCall key data ttl]\<rparr>)"

definition delAsync :: "jsval \<Rightarrow> jsval promise" where
  "delAsync key s =
     (Inr (Bool (store s key \<noteq> None)),
      s\<lparr>store := (store s)(key := None), calls := calls s @ [DelCall key]\<rparr>)"

section \<open>The class MemcachedWrapper\<close>

subsection \<open>Keys\<close>

text \<open>The code units that \<^verbatim>\<open>\s\<close> matches.\<close>

definition is_space :: "nat \<Rightarrow> bool" where
  "is_space c \<longleftrightarrow>
     c \<in> set [9, 10, 11, 12, 13, 32, 160, 5760] \<or> (8192 \<le> c \<and> c \<le> 8202) \<or>
     c \<in> set [8232, 8233, 8239, 8287, 12288, 65279]"

definition maxLengthKey :: nat where
  "maxLengthKey = 250"

text \<open>
  \<^verbatim>\<open>#checkKeyValidity(key)\<close>. \<^verbatim>\<open>key?.replace(/\s/g,'')\<close> is \<^verbatim>\<open>undefined\<close> for a key that
  is \<^verbatim>\<open>undefined\<close> or \<^verbatim>\<open>null\<close>, and throws for a value without a method \<^verbatim>\<open>replace\<close>.
  For a string it is a string, so the test of its type never fires.
\<close>

fun checkKeyValidity :: "jsval \<Rightarrow> error + unit" where
  "checkKeyValidity Undefined = Inl (Error ''The key cannot be empty'')"
| "checkKeyValidity Null = Inl (Error ''The key cannot be empty'')"
| "checkKeyValidity (Str key) =
     (let trimmedKey = filter (\<lambda>c. \<not> is_space c) key in
      if trimmedKey = [] then Inl (Error ''The key cannot be empty'')
      else if length trimmedKey > maxLengthKey
      then Inl (Error ''The key must be at least one character'')
      else Inr ())"
| "checkKeyValidity key = Inl TypeError"

subsection \<open>Scalar entries\<close>

definition get :: "jsval \<Rightarrow> payload promise" where
  "get key = await (lift (checkKeyValidity key)) (\<lambda>_. getAsync key)"

definition set_cache :: "jsval \<Rightarrow> payload \<Rightarrow> jsnum option \<Rightarrow> jsval promise" where
  "set_cache key data ttl =
     await (lift (checkKeyValidity key)) (\<lambda>_.
       if \<not> num_truthy (Number ttl) \<or> data = Val Undefined
       then throw (Error ''Invalid arguments for set operation'')
       else setAsync key data ttl)"

definition del :: "jsval \<Rightarrow> jsval promise" where
  "del key =
     await (lift (checkKeyValidity key)) (\<lambda>_.
     await (delAsync key) (\<lambda>_.
     return (Str (str ''OK''))))"

subsection \<open>Options\<close>

text \<open>
  The \<^verbatim>\<open>options\<close> object of the hash and list methods: a property is absent (\<open>None\<close>)
  or holds a value of its documented type. \<open>opt_end\<close> is the property \<^verbatim>\<open>end\<close>.
  \<open>keys_length\<close> is \<^verbatim>\<open>Object.keys(options).length\<close>.
\<close>

record options =
  opt_index :: "jsnum option"
  opt_start :: "jsnum option"
  opt_end :: "jsnum option"
  opt_push :: "bool option"
  opt_ttl :: "jsnum option"

definition no_options :: options where
  "no_options =
     \<lparr>opt_index = None, opt_start = None, opt_end = None, opt_push = None, opt_ttl = None\<rparr>"

definition keys_length :: "options \<Rightarrow> nat" where
  "keys_length opts =
     (if opt_index opts = None then 0 else 1) + (if opt_start opts = None then 0 else 1) +
     (if opt_end opts = None then 0 else 1) + (if opt_push opts = None then 0 else 1) +
     (if opt_ttl opts = None then 0 else 1)"

subsection \<open>Hashes\<close>

definition hashSet :: "jsval \<Rightarrow> jsval \<Rightarrow> jsval \<Rightarrow> jsnum option \<Rightarrow> jsval promise" where
  "hashSet key field data ttl =
     await (lift (checkKeyValidity key)) (\<lambda>_.
     await (get key) (\<lambda>found.
     await (if payload_truthy found
            then await (get key) (\<lambda>hashString. lift (JSON_parse hashString))
            else return (Obj [])) (\<lambda>hash.
     case field of
       Str f \<Rightarrow>
         await (lift (prop_set hash f data)) (\<lambda>hash.
         await (set_cache key (JSON_stringify hash) ttl) (\<lambda>_.
         return Undefined))
     | _ \<Rightarrow> throw (Error ''The field name must be a string''))))"

definition hashGet :: "jsval \<Rightarrow> jsval \<Rightarrow> jsval promise" where
  "hashGet key field =
     await (lift (checkKeyValidity key)) (\<lambda>_.
     await (get key) (\<lambda>hashString.
     await (if payload_truthy hashString then lift (JSON_parse hashString)
            else return Undefined) (\<lambda>hash.
     if truthy field then lift (index_get hash field) else return hash)))"

text \<open>\<open>options = None\<close>: the third argument is left out, and \<^verbatim>\<open>options.ttl\<close> throws.\<close>

definition hashDel :: "jsval \<Rightarrow> jsval \<Rightarrow> options option \<Rightarrow> jsval promise" where
  "hashDel key field options =
     await (lift (checkKeyValidity key)) (\<lambda>_.
     if \<not> truthy field then del key
     else
       await (get key) (\<lambda>hashString.
       if \<not> payload_truthy hashString then return (Str (str ''Data not found''))
       else
         await (lift (JSON_parse hashString)) (\<lambda>parsed.
         let hash = (if truthy parsed then parsed else Obj []) in
         await (lift (index_get hash field)) (\<lambda>v.
         if v = Undefined then return (Str (str ''Data not found''))
         else
           await (lift (index_delete hash field)) (\<lambda>hash.
           await (case options of
                    None \<Rightarrow> throw TypeError
                  | Some opts \<Rightarrow> return (opt_ttl opts)) (\<lambda>ttl.
           await (set_cache key (JSON_stringify hash) ttl) (\<lambda>_.
           return (Str (str ''OK'')))))))))"

subsection \<open>Lists\<close>

definition listSet :: "jsval \<Rightarrow> jsval \<Rightarrow> jsnum option \<Rightarrow> options \<Rightarrow> jsval promise" where
  "listSet key data ttl options =
     await (lift (checkKeyValidity key)) (\<lambda>_.
     await (get key) (\<lambda>listString.
     await (if payload_truthy listString then lift (JSON_parse listString)
            else return (Arr [])) (\<lambda>list.
     let itemIndex = Number (opt_index options);
         push = (case opt_push options of None \<Rightarrow> False | Some b \<Rightarrow> b)
     in
     await (lift (if num_truthy itemIndex then array_set list itemIndex data
                  else if push then array_push list data
                  else array_unshift list data)) (\<lambda>list.
     set_cache key (JSON_stringify list) ttl))))"

definition listGet :: "jsval \<Rightarrow> options \<Rightarrow> jsval promise" where
  "listGet key options =
     await (get key) (\<lambda>listString.
     await (if payload_truthy listString then lift (JSON_parse listString)
            else return Undefined) (\<lambda>list.
     if keys_length options = 0 then return list
     else
       let itemIndex = Number (opt_index options);
           startIndex = Number (opt_start options);
           endIndex = Number (opt_end options)
       in
       if truthy list then
         if num_truthy itemIndex then lift (array_get list itemIndex)
         else if num_truthy startIndex \<and> num_truthy endIndex then
           await (lift (elements list)) (\<lambda>xs.
           return (Arr (slice xs startIndex (num_add endIndex (Fin 1)))))
         else if num_truthy startIndex \<and> \<not> num_truthy endIndex then
           await (lift (elements list)) (\<lambda>xs. return (Arr (slice_from xs startIndex)))
         else if \<not> num_truthy startIndex \<and> num_truthy endIndex then
           await (lift (elements list)) (\<lambda>xs.
           return (Arr (slice xs (Fin 0) (num_add endIndex (Fin 1)))))
         else return list
       else return Undefined))"

definition listDel :: "jsval \<Rightarrow> jsnum option \<Rightarrow> options \<Rightarrow> jsval promise" where
  "listDel key ttl options =
     await (lift (checkKeyValidity key)) (\<lambda>_.
     if keys_length options = 0 then del key
     else
       await (get key) (\<lambda>listString.
       await (if payload_truthy listString then lift (JSON_parse listString)
              else return (Arr [])) (\<lambda>list.
       await (lift (elements list)) (\<lambda>xs.
       if length xs = 0 then return Undefined
       else
         let itemIndex = Number (opt_index options);
             startIndex = Number (opt_start options);
             endIndex = Number (opt_end options);
             xs' = (if ge_zero itemIndex then splice xs itemIndex (Fin 1)
                    else if ge_zero startIndex \<and> ge_zero endIndex
                    then splice xs startIndex (num_add (num_sub endIndex startIndex) (Fin 1))
                    else if ge_zero startIndex then splice_from xs startIndex
                    else if ge_zero endIndex then splice xs (Fin 0) (num_add endIndex (Fin 1))
                    else [])
         in
         await (set_cache key (JSON_stringify (Arr xs')) ttl) (\<lambda>_.
         return Undefined)))))"

section \<open>Running the methods\<close>

declare checkKeyValidity.simps [simp del]

lemma await_lift_Inr: "await (lift (Inr v)) f s = f v s"
  by (simp add: await_def lift_def)

lemma await_lift_Inl: "await (lift (Inl e)) f s = (Inl e, s)"
  by (simp add: await_def lift_def)

lemma await_return: "await (return v) f s = f v s"
  by (simp add: await_def return_def)

lemma await_throw: "await (throw e) f s = (Inl e, s)"
  by (simp add: await_def throw_def)

lemma await_getAsync:
  "await (getAsync key) f s =
     f (case store s key of None \<Rightarrow> Val Null | Some p \<Rightarrow> p)
       (s\<lparr>calls := calls s @ [GetCall key]\<rparr>)"
  by (simp add: await_def getAsync_def)

lemma await_setAsync:
  "await (setAsync key data ttl) f s =
     f (Bool True)
       (s\<lparr>store := (store s)(key \<mapsto> data), calls := calls s @ [SetCall key data ttl]\<rparr>)"
  by (simp add: await_def setAsync_def)

lemma await_delAsync:
  "await (delAsync key) f s =
     f (Bool (store s key \<noteq> None))
       (s\<lparr>store := (store s)(key := None), calls := calls s @ [DelCall key]\<rparr>)"
  by (simp add: await_def delAsync_def)

lemmas await_simps =
  await_lift_Inr await_lift_Inl await_return await_throw await_getAsync await_setAsync
  await_delAsync

lemma await_await: "await (await m f) g s = await m (\<lambda>v. await (f v) g) s"
  by (simp add: await_def split: prod.splits sum.splits)

text \<open>With a key that passes the validation, the scalar methods reach the driver.\<close>

lemma get_valid:
  "checkKeyValidity key = Inr () \<Longrightarrow>
   get key s =
     (Inr (case store s key of None \<Rightarrow> Val Null | Some p \<Rightarrow> p),
      s\<lparr>calls := calls s @ [GetCall key]\<rparr>)"
  by (simp add: get_def await_lift_Inr getAsync_def)

lemma await_get_valid:
  "checkKeyValidity key = Inr () \<Longrightarrow>
   await (get key) f s =
     f (case store s key of None \<Rightarrow> Val Null | Some p \<Rightarrow> p)
       (s\<lparr>calls := calls s @ [GetCall key]\<rparr>)"
  by (simp add: await_def get_valid)

lemma set_cache_valid:
  "checkKeyValidity key = Inr () \<Longrightarrow> num_truthy (Number ttl) \<Longrightarrow> data \<noteq> Val Undefined \<Longrightarrow>
   set_cache key data ttl s =
     (Inr (Bool True),
      s\<lparr>store := (store s)(key \<mapsto> data), calls := calls s @ [SetCall key data ttl]\<rparr>)"
  by (simp add: set_cache_def await_lift_Inr setAsync_def)

lemma await_set_cache_valid:
  "checkKeyValidity key = Inr () \<Longrightarrow> num_truthy (Number ttl) \<Longrightarrow> data \<noteq> Val Undefined \<Longrightarrow>
   await (set_cache key data ttl) f s =
     f (Bool True)
       (s\<lparr>store := (store s)(key \<mapsto> data), calls := calls s @ [SetCall key data ttl]\<rparr>)"
  by (simp add: await_def set_cache_valid)

lemma del_valid:
  "checkKeyValidity key = Inr () \<Longrightarrow>
   del key s =
     (Inr (Str (str ''OK'')),
      s\<lparr>store := (store s)(key := None), calls := calls s @ [DelCall key]\<rparr>)"
  by (simp add: del_def await_simps return_def)

text \<open>With a key that fails it, \<^verbatim>\<open>get\<close> stops before the driver.\<close>

lemma get_invalid: "checkKeyValidity key = Inl e \<Longrightarrow> get key s = (Inl e, s)"
  by (simp add: get_def await_lift_Inl)

lemma await_get_invalid: "checkKeyValidity key = Inl e \<Longrightarrow> await (get key) f s = (Inl e, s)"
  by (simp add: await_def get_invalid)

lemma valid_key_k: "checkKeyValidity (Str (str ''k'')) = Inr ()"
  by (simp add: checkKeyValidity.simps str_def is_space_def maxLengthKey_def)

subsection \<open>The codec on JSON values\<close>

lemma json_value_serializable: "json_value v \<Longrightarrow> serializable v"
  by (cases v) simp_all

text \<open>Writing a JSON value and reading the text back gives the value.\<close>

lemma json_of_id:
  "json_value v \<Longrightarrow> json_of v = v"
  "json_values xs \<Longrightarrow> json_elems xs = xs"
  "json_members kvs \<Longrightarrow> json_props kvs = kvs"
  by (induction v and xs and kvs rule: json_of_json_elems_json_props.induct)
     (auto simp: json_value_serializable)

lemma map_of_json_props:
  "map_of kvs f = Some v \<Longrightarrow> serializable v \<Longrightarrow> map_of (json_props kvs) f = Some (json_of v)"
  by (induction kvs) (auto split: if_splits)

lemma keys_length_no_options: "keys_length no_options = 0"
  by (simp add: keys_length_def no_options_def)

lemma listGet_whole:
  "checkKeyValidity key = Inr () \<Longrightarrow> store s key = Some (Text v) \<Longrightarrow>
   fst (listGet key no_options s) = Inr v"
  by (simp add: listGet_def await_get_valid await_simps keys_length_no_options return_def)

section \<open>Key validation\<close>

lemma trimmed_all_space:
  "(\<forall>c\<in>set key. is_space c) \<Longrightarrow> filter (\<lambda>c. \<not> is_space c) key = []"
  by (simp add: filter_empty_conv)

lemma trimmed_no_space:
  "(\<forall>c\<in>set key. \<not> is_space c) \<Longrightarrow> filter (\<lambda>c. \<not> is_space c) key = key"
  by (simp add: filter_id_conv)

text \<open>
  Claim C4, amended. The validation looks at the key with its whitespace taken out.
  It rejects the empty string and every string of whitespace only, and it rejects
  every key of more than 250 code units none of which is whitespace (so every such
  key of 251). It accepts every key of at most 250 code units that are not all
  whitespace (so every such key of 250). A method that is given a rejected key
  returns the error of the validation and leaves the backend as it was: no call
  reaches the driver.
\<close>

theorem key_validation:
  "((\<forall>c\<in>set key. is_space c) \<longrightarrow>
      checkKeyValidity (Str key) = Inl (Error ''The key cannot be empty'')) \<and>
   (250 < length key \<and> (\<forall>c\<in>set key. \<not> is_space c) \<longrightarrow>
      checkKeyValidity (Str key) = Inl (Error ''The key must be at least one character'')) \<and>
   (length key \<le> 250 \<and> (\<exists>c\<in>set key. \<not> is_space c) \<longrightarrow>
      checkKeyValidity (Str key) = Inr ()) \<and>
   (checkKeyValidity k = Inl e \<longrightarrow>
      get k s = (Inl e, s) \<and> set_cache k entry ttl s = (Inl e, s) \<and> del k s = (Inl e, s) \<and>
      hashSet k field data ttl s = (Inl e, s) \<and> hashGet k field s = (Inl e, s) \<and>
      hashDel k field options s = (Inl e, s) \<and> listSet k data ttl opts s = (Inl e, s) \<and>
      listGet k opts s = (Inl e, s) \<and> listDel k ttl opts s = (Inl e, s))"
proof (intro conjI impI)
  assume "\<forall>c\<in>set key. is_space c"
  then show "checkKeyValidity (Str key) = Inl (Error ''The key cannot be empty'')"
    by (simp add: checkKeyValidity.simps trimmed_all_space)
next
  assume "250 < length key \<and> (\<forall>c\<in>set key. \<not> is_space c)"
  then show "checkKeyValidity (Str key) = Inl (Error ''The key must be at least one character'')"
    by (auto simp: checkKeyValidity.simps trimmed_no_space maxLengthKey_def)
next
  assume a: "length key \<le> 250 \<and> (\<exists>c\<in>set key. \<not> is_space c)"
  then have "filter (\<lambda>c. \<not> is_space c) key \<noteq> []"
    by (auto simp: filter_empty_conv)
  moreover have "length (filter (\<lambda>c. \<not> is_space c) key) \<le> 250"
    using a length_filter_le [of "\<lambda>c. \<not> is_space c" key] by linarith
  ultimately show "checkKeyValidity (Str key) = Inr ()"
    by (simp add: checkKeyValidity.simps maxLengthKey_def)
next
  assume r: "checkKeyValidity k = Inl e"
  show "get k s = (Inl e, s)"
    using r by (rule get_invalid)
  show "set_cache k entry ttl s = (Inl e, s)"
    using r by (simp add: set_cache_def await_lift_Inl)
  show "del k s = (Inl e, s)"
    using r by (simp add: del_def await_lift_Inl)
  show "hashSet k field data ttl s = (Inl e, s)"
    using r by (simp add: hashSet_def await_lift_Inl)
  show "hashGet k field s = (Inl e, s)"
    using r by (simp add: hashGet_def await_lift_Inl)
  show "hashDel k field options s = (Inl e, s)"
    using r by (simp add: hashDel_def await_lift_Inl)
  show "listSet k data ttl opts s = (Inl e, s)"
    using r by (simp add: listSet_def await_lift_Inl)
  show "listGet k opts s = (Inl e, s)"
    using r by (simp add: listGet_def await_get_invalid)
  show "listDel k ttl opts s = (Inl e, s)"
    using r by (simp add: listDel_def await_lift_Inl)
qed

text \<open>
  The theorem at the keys of the claim: the empty string, three spaces, 251 times
  and 250 times the letter a; and \<^verbatim>\<open>hashSet\<close> with the key of three spaces.
\<close>

theorem key_validation_witness:
  "checkKeyValidity (Str (str '''')) = Inl (Error ''The key cannot be empty'') \<and>
   checkKeyValidity (Str (str ''   '')) = Inl (Error ''The key cannot be empty'') \<and>
   checkKeyValidity (Str (replicate 251 97)) =
     Inl (Error ''The key must be at least one character'') \<and>
   checkKeyValidity (Str (replicate 250 97)) = Inr () \<and>
   hashSet (Str (str ''   '')) (Str (str ''f'')) Null (Some (Fin 10))
     \<lparr>store = Map.empty, calls = []\<rparr> =
     (Inl (Error ''The key cannot be empty''), \<lparr>store = Map.empty, calls = []\<rparr>)"
proof -
  have sp: "\<forall>c\<in>set (str ''   ''). is_space c"
    by (simp add: str_def is_space_def)
  have e: "checkKeyValidity (Str (str ''   '')) = Inl (Error ''The key cannot be empty'')"
    using key_validation [of "str ''   ''"] sp by blast
  have "checkKeyValidity (Str (str '''')) = Inl (Error ''The key cannot be empty'')"
    using key_validation [of "str ''''"] by (simp add: str_def)
  moreover have "checkKeyValidity (Str (replicate 251 97)) =
      Inl (Error ''The key must be at least one character'')"
    using key_validation [of "replicate 251 97"] by (simp add: is_space_def)
  moreover have "checkKeyValidity (Str (replicate 250 97)) = Inr ()"
    using key_validation [of "replicate 250 97"] by (simp add: is_space_def)
  moreover have "hashSet (Str (str ''   '')) (Str (str ''f'')) Null (Some (Fin 10))
     \<lparr>store = Map.empty, calls = []\<rparr> =
     (Inl (Error ''The key cannot be empty''), \<lparr>store = Map.empty, calls = []\<rparr>)"
    using key_validation [of _ "Str (str ''   '')" "Error ''The key cannot be empty''"] e
    by blast
  ultimately show ?thesis
    using e by blast
qed

text \<open>
  The claim as it stands fails on a key of 251 code units one of which is a space:
  250 times the letter a and a space pass the validation, and \<^verbatim>\<open>get\<close> hands the key to
  the driver.
\<close>

theorem key_validation_counterexample:
  "length (replicate 250 (97::nat) @ [32]) = 251 \<and>
   checkKeyValidity (Str (replicate 250 97 @ [32])) = Inr () \<and>
   calls (snd (get (Str (replicate 250 97 @ [32])) \<lparr>store = Map.empty, calls = []\<rparr>)) =
     [GetCall (Str (replicate 250 97 @ [32]))]"
proof -
  have v: "checkKeyValidity (Str (replicate 250 97 @ [32])) = Inr ()"
    by (simp add: checkKeyValidity.simps is_space_def maxLengthKey_def)
  show ?thesis
    using v by (simp add: get_valid)
qed

section \<open>Scalar entries\<close>

text \<open>
  Claim C2, amended. For every key that passes the validation, \<^verbatim>\<open>set(key, value, ttl)\<close>
  fails with the error of the class, and no call reaches the driver, whenever
  \<^verbatim>\<open>ttl\<close> is left out, \<open>NaN\<close> or 0, or the value is \<^verbatim>\<open>undefined\<close>. With every other
  \<^verbatim>\<open>ttl\<close>, the negative ones too, and a value that is not \<^verbatim>\<open>undefined\<close>, the value is
  written with that \<^verbatim>\<open>ttl\<close>.
\<close>

theorem set_rejects_invalid_arguments:
  assumes "checkKeyValidity key = Inr ()"
  shows "(ttl = None \<or> ttl = Some NaN \<or> ttl = Some (Fin 0) \<or> entry = Val Undefined \<longrightarrow>
            set_cache key entry ttl s =
              (Inl (Error ''Invalid arguments for set operation''), s)) \<and>
         (ttl = Some (Fin n) \<and> n \<noteq> 0 \<and> entry \<noteq> Val Undefined \<longrightarrow>
            (\<exists>r. set_cache key entry ttl s =
              (Inr r,
               s\<lparr>store := (store s)(key \<mapsto> entry),
                 calls := calls s @ [SetCall key entry ttl]\<rparr>)))"
  using assms by (auto simp: set_cache_def await_lift_Inr throw_def setAsync_def)

theorem set_rejects_invalid_arguments_witness:
  "checkKeyValidity (Str (str ''k'')) = Inr () \<and>
   set_cache (Str (str ''k'')) (Val (Str (str ''abc''))) (Some (Fin 0))
     \<lparr>store = Map.empty, calls = []\<rparr> =
     (Inl (Error ''Invalid arguments for set operation''), \<lparr>store = Map.empty, calls = []\<rparr>) \<and>
   set_cache (Str (str ''k'')) (Val Undefined) (Some (Fin 10))
     \<lparr>store = Map.empty, calls = []\<rparr> =
     (Inl (Error ''Invalid arguments for set operation''), \<lparr>store = Map.empty, calls = []\<rparr>) \<and>
   (\<exists>r. set_cache (Str (str ''k'')) (Val (Str (str ''abc''))) (Some (Fin 10))
     \<lparr>store = Map.empty, calls = []\<rparr> =
     (Inr r, \<lparr>store = [Str (str ''k'') \<mapsto> Val (Str (str ''abc''))],
              calls = [SetCall (Str (str ''k'')) (Val (Str (str ''abc''))) (Some (Fin 10))]\<rparr>))"
  using valid_key_k
    set_rejects_invalid_arguments [OF valid_key_k, of "Some (Fin 0)" "Val (Str (str ''abc''))"
      "\<lparr>store = Map.empty, calls = []\<rparr>"]
    set_rejects_invalid_arguments [OF valid_key_k, of "Some (Fin 10)" "Val Undefined"
      "\<lparr>store = Map.empty, calls = []\<rparr>"]
    set_rejects_invalid_arguments [OF valid_key_k, of "Some (Fin 10)" "Val (Str (str ''abc''))"
      "\<lparr>store = Map.empty, calls = []\<rparr>" 10]
  by (simp add: str_def)

text \<open>
  The claim as it stands fails on a negative \<^verbatim>\<open>ttl\<close>: \<^verbatim>\<open>set("k", "abc", -1)\<close> does not
  fail, and the driver receives the write.
\<close>

theorem set_negative_ttl_counterexample:
  "checkKeyValidity (Str (str ''k'')) = Inr () \<and>
   fst (set_cache (Str (str ''k'')) (Val (Str (str ''abc''))) (Some (Fin (- 1)))
          \<lparr>store = Map.empty, calls = []\<rparr>) \<noteq>
     Inl (Error ''Invalid arguments for set operation'') \<and>
   store (snd (set_cache (Str (str ''k'')) (Val (Str (str ''abc''))) (Some (Fin (- 1)))
          \<lparr>store = Map.empty, calls = []\<rparr>)) (Str (str ''k'')) =
     Some (Val (Str (str ''abc''))) \<and>
   calls (snd (set_cache (Str (str ''k'')) (Val (Str (str ''abc''))) (Some (Fin (- 1)))
          \<lparr>store = Map.empty, calls = []\<rparr>)) =
     [SetCall (Str (str ''k'')) (Val (Str (str ''abc''))) (Some (Fin (- 1)))]"
  using valid_key_k by (simp add: set_cache_valid)

text \<open>
  Claim C8. For every key that passes the validation, \<^verbatim>\<open>del(key)\<close> returns the string
  \<^verbatim>\<open>"OK"\<close> whatever the backend holds under the key, and so does \<^verbatim>\<open>hashDel(key)\<close>
  without a field argument, for any \<^verbatim>\<open>options\<close>; afterwards the key has no entry.
\<close>

theorem del_returns_OK:
  assumes "checkKeyValidity key = Inr ()"
  shows "fst (del key s) = Inr (Str (str ''OK'')) \<and>
         fst (hashDel key Undefined options s) = Inr (Str (str ''OK'')) \<and>
         store (snd (del key s)) key = None \<and>
         store (snd (hashDel key Undefined options s)) key = None"
  using assms by (simp add: hashDel_def await_lift_Inr del_valid)

text \<open>The theorem on a key without an entry and on a key that holds a hash.\<close>

theorem del_returns_OK_witness:
  "checkKeyValidity (Str (str ''k'')) = Inr () \<and>
   fst (del (Str (str ''k'')) \<lparr>store = Map.empty, calls = []\<rparr>) = Inr (Str (str ''OK'')) \<and>
   fst (hashDel (Str (str ''k'')) Undefined None
          \<lparr>store = [Str (str ''k'') \<mapsto> Text (Obj [])], calls = []\<rparr>) = Inr (Str (str ''OK''))"
  using valid_key_k
    del_returns_OK [OF valid_key_k, of "\<lparr>store = Map.empty, calls = []\<rparr>"]
    del_returns_OK [OF valid_key_k,
      of "\<lparr>store = [Str (str ''k'') \<mapsto> Text (Obj [])], calls = []\<rparr>" None]
  by simp

section \<open>Hashes\<close>

text \<open>
  \<^verbatim>\<open>hashSet\<close> on a key without an entry, or with the JSON text of a mapping: the
  property is set on the decoded mapping (on the empty one when there is no entry),
  and the mapping is written back.
\<close>

lemma hashSet_run:
  assumes "checkKeyValidity key = Inr ()"
    and "store s key = None \<and> kvs = [] \<or> store s key = Some (Text (Obj kvs))"
    and "f \<noteq> str ''__proto__''" and "0 < n"
  shows "\<exists>cs. hashSet key (Str f) v (Some (Fin n)) s =
      (Inr Undefined,
       s\<lparr>store := (store s)(key \<mapsto> Text (Obj (json_props (AList.update f v kvs)))),
         calls := cs\<rparr>)"
  using assms
  by (auto simp: hashSet_def await_get_valid await_simps await_await JSON_stringify_def
      await_set_cache_valid return_def)

lemma hashSet_fresh:
  "checkKeyValidity key = Inr () \<Longrightarrow> store s key = None \<Longrightarrow> 0 < n \<Longrightarrow>
   hashSet key (Str f) v (Some (Fin n)) s =
     (case prop_set (Obj []) f v of
        Inl e \<Rightarrow> (Inl e, s\<lparr>calls := calls s @ [GetCall key]\<rparr>)
      | Inr hash \<Rightarrow>
          await (set_cache key (JSON_stringify hash) (Some (Fin n))) (\<lambda>_. return Undefined)
            (s\<lparr>calls := calls s @ [GetCall key]\<rparr>))"
  by (simp add: hashSet_def await_get_valid await_simps)

text \<open>
  Claim C5, amended. For every key that passes the validation and holds no entry or
  the JSON text of a mapping, every field name that is a string other than the empty
  one and \<^verbatim>\<open>"__proto__"\<close>, every JSON value \<open>v\<close> and every positive \<^verbatim>\<open>ttl\<close>:
  \<^verbatim>\<open>hashSet(key, field, v, ttl)\<close> completes, and \<^verbatim>\<open>hashGet(key, field)\<close> run next
  returns \<open>v\<close>.
\<close>

theorem hashSet_hashGet_roundtrip:
  assumes "checkKeyValidity key = Inr ()"
    and "f \<noteq> []" and "f \<noteq> str ''__proto__''"
    and "json_value v"
    and "0 < n"
    and "store s key = None \<or> store s key = Some (Text (Obj kvs))"
  shows "fst (hashSet key (Str f) v (Some (Fin n)) s) = Inr Undefined \<and>
         fst (hashGet key (Str f) (snd (hashSet key (Str f) v (Some (Fin n)) s))) = Inr v"
proof -
  define kvs' where "kvs' = (if store s key = None then [] else kvs)"
  have st: "store s key = None \<and> kvs' = [] \<or> store s key = Some (Text (Obj kvs'))"
    using assms(6) by (auto simp: kvs'_def)
  obtain cs where run: "hashSet key (Str f) v (Some (Fin n)) s =
      (Inr Undefined,
       s\<lparr>store := (store s)(key \<mapsto> Text (Obj (json_props (AList.update f v kvs')))),
         calls := cs\<rparr>)"
    using hashSet_run [OF assms(1) st assms(3,5)] by blast
  have "map_of (AList.update f v kvs') f = Some v"
    by (simp add: update_conv')
  then have look: "map_of (json_props (AList.update f v kvs')) f = Some v"
    using map_of_json_props [of "AList.update f v kvs'" f v] assms(4)
    by (simp add: json_of_id json_value_serializable)
  show ?thesis
    unfolding run using assms(1,2) look
    by (simp add: hashGet_def await_get_valid await_simps lift_def)
qed

text \<open>The theorem on a key without an entry and on a hash that has the field already.\<close>

theorem hashSet_hashGet_roundtrip_witness:
  "checkKeyValidity (Str (str ''k'')) = Inr () \<and> str ''f'' \<noteq> [] \<and> str ''f'' \<noteq> str ''__proto__'' \<and>
   json_value (Num (Fin 7)) \<and> (0::int) < 10 \<and>
   fst (hashGet (Str (str ''k'')) (Str (str ''f''))
         (snd (hashSet (Str (str ''k'')) (Str (str ''f'')) (Num (Fin 7)) (Some (Fin 10))
                \<lparr>store = Map.empty, calls = []\<rparr>))) = Inr (Num (Fin 7)) \<and>
   fst (hashGet (Str (str ''k'')) (Str (str ''f''))
         (snd (hashSet (Str (str ''k'')) (Str (str ''f'')) (Num (Fin 7)) (Some (Fin 10))
                \<lparr>store = [Str (str ''k'') \<mapsto> Text (Obj [(str ''f'', Null), (str ''g'', Bool True)])],
                  calls = []\<rparr>))) = Inr (Num (Fin 7))"
proof -
  have f: "str ''f'' \<noteq> []" "str ''f'' \<noteq> str ''__proto__''"
    by (simp_all add: str_def)
  have v: "json_value (Num (Fin 7))"
    by simp
  have n: "(0::int) < 10"
    by simp
  show ?thesis
    using valid_key_k f v n
      hashSet_hashGet_roundtrip [OF valid_key_k f v n,
        of "\<lparr>store = Map.empty, calls = []\<rparr>"]
      hashSet_hashGet_roundtrip [OF valid_key_k f v n,
        of "\<lparr>store = [Str (str ''k'') \<mapsto> Text (Obj [(str ''f'', Null), (str ''g'', Bool True)])],
             calls = []\<rparr>" "[(str ''f'', Null), (str ''g'', Bool True)]"]
    by simp
qed

text \<open>
  The claim as it stands fails on two field names that are strings. After
  \<^verbatim>\<open>hashSet("k", "", 7, 10)\<close> on an empty backend, \<^verbatim>\<open>hashGet("k", "")\<close> returns the whole
  mapping. After \<^verbatim>\<open>hashSet("k", "__proto__", 7, 10)\<close> the mapping written is empty, and
  \<^verbatim>\<open>hashGet("k", "__proto__")\<close> returns what the decoded mapping inherits.
\<close>

theorem hashSet_hashGet_counterexample:
  "checkKeyValidity (Str (str ''k'')) = Inr () \<and> json_value (Num (Fin 7)) \<and>
   fst (hashGet (Str (str ''k'')) (Str (str ''''))
         (snd (hashSet (Str (str ''k'')) (Str (str '''')) (Num (Fin 7)) (Some (Fin 10))
                \<lparr>store = Map.empty, calls = []\<rparr>))) = Inr (Obj [(str '''', Num (Fin 7))]) \<and>
   fst (hashGet (Str (str ''k'')) (Str (str ''__proto__''))
         (snd (hashSet (Str (str ''k'')) (Str (str ''__proto__'')) (Num (Fin 7)) (Some (Fin 10))
                \<lparr>store = Map.empty, calls = []\<rparr>))) = Inr (Builtin (str ''__proto__''))"
  using valid_key_k
  by (simp add: hashSet_fresh JSON_stringify_def await_set_cache_valid return_def
      hashGet_def await_get_valid await_simps lift_def Object_prototype_def str_def)

text \<open>
  Claim C10. For every key that passes the validation, the empty string as the field
  argument is read as no field argument: \<^verbatim>\<open>hashGet(key, "")\<close> does what
  \<^verbatim>\<open>hashGet(key)\<close> does, and on the JSON text of a mapping it returns the whole
  mapping, whatever the mapping holds under the empty name; \<^verbatim>\<open>hashDel(key, "")\<close> does
  what \<^verbatim>\<open>hashDel(key)\<close> does: it asks the driver to remove the key, and nothing else,
  and returns \<^verbatim>\<open>"OK"\<close>.
\<close>

theorem empty_field_is_no_field:
  assumes "checkKeyValidity key = Inr ()"
  shows "hashGet key (Str []) s = hashGet key Undefined s \<and>
         hashDel key (Str []) options s = hashDel key Undefined options s \<and>
         (store s key = Some (Text (Obj kvs)) \<longrightarrow> fst (hashGet key (Str []) s) = Inr (Obj kvs)) \<and>
         fst (hashDel key (Str []) options s) = Inr (Str (str ''OK'')) \<and>
         store (snd (hashDel key (Str []) options s)) key = None \<and>
         calls (snd (hashDel key (Str []) options s)) = calls s @ [DelCall key]"
  using assms
  by (simp add: hashGet_def hashDel_def await_get_valid await_simps del_valid return_def)

text \<open>The theorem on a hash that has a value under the empty name.\<close>

theorem empty_field_is_no_field_witness:
  "checkKeyValidity (Str (str ''k'')) = Inr () \<and>
   fst (hashGet (Str (str ''k'')) (Str [])
     \<lparr>store = [Str (str ''k'') \<mapsto> Text (Obj [([], Num (Fin 1)), (str ''a'', Num (Fin 2))])],
       calls = []\<rparr>) = Inr (Obj [([], Num (Fin 1)), (str ''a'', Num (Fin 2))]) \<and>
   fst (hashDel (Str (str ''k'')) (Str []) None
     \<lparr>store = [Str (str ''k'') \<mapsto> Text (Obj [([], Num (Fin 1)), (str ''a'', Num (Fin 2))])],
       calls = []\<rparr>) = Inr (Str (str ''OK'')) \<and>
   store (snd (hashDel (Str (str ''k'')) (Str []) None
     \<lparr>store = [Str (str ''k'') \<mapsto> Text (Obj [([], Num (Fin 1)), (str ''a'', Num (Fin 2))])],
       calls = []\<rparr>)) (Str (str ''k'')) = None"
proof -
  have st: "store \<lparr>store = [Str (str ''k'') \<mapsto> Text (Obj [([], Num (Fin 1)), (str ''a'', Num (Fin 2))])],
       calls = []\<rparr> (Str (str ''k'')) = Some (Text (Obj [([], Num (Fin 1)), (str ''a'', Num (Fin 2))]))"
    by simp
  show ?thesis
    using valid_key_k st
      empty_field_is_no_field [OF valid_key_k,
        of "\<lparr>store = [Str (str ''k'') \<mapsto> Text (Obj [([], Num (Fin 1)), (str ''a'', Num (Fin 2))])],
             calls = []\<rparr>" None "[([], Num (Fin 1)), (str ''a'', Num (Fin 2))]"]
    by blast
qed

text \<open>
  Claim C1, where the class departs from it. The claim is that \<^verbatim>\<open>hashGet\<close> on a key
  without an entry returns \<^verbatim>\<open>undefined\<close> with and without a field argument. With a
  field argument that is truthy the class reads \<^verbatim>\<open>hash[field]\<close> on \<^verbatim>\<open>undefined\<close>: for
  every key that passes the validation and has no entry, the call is rejected with a
  \<^verbatim>\<open>TypeError\<close>, after the one read of the backend.
\<close>

theorem hashGet_absent_with_field_throws:
  assumes "checkKeyValidity key = Inr ()"
    and "store s key = None"
    and "truthy field"
  shows "hashGet key field s = (Inl TypeError, s\<lparr>calls := calls s @ [GetCall key]\<rparr>)"
  using assms by (cases field) (simp_all add: hashGet_def await_get_valid await_simps lift_def)

text \<open>\<^verbatim>\<open>hashGet("k", "f")\<close> on an empty backend.\<close>

theorem hashGet_absent_with_field_throws_witness:
  "checkKeyValidity (Str (str ''k'')) = Inr () \<and>
   store \<lparr>store = Map.empty, calls = []\<rparr> (Str (str ''k'')) = None \<and>
   truthy (Str (str ''f'')) \<and>
   fst (hashGet (Str (str ''k'')) (Str (str ''f'')) \<lparr>store = Map.empty, calls = []\<rparr>) =
     Inl TypeError"
proof -
  have st: "store \<lparr>store = Map.empty, calls = []\<rparr> (Str (str ''k'')) = None"
    by simp
  have f: "truthy (Str (str ''f''))"
    by (simp add: str_def)
  show ?thesis
    using valid_key_k st f hashGet_absent_with_field_throws [OF valid_key_k st f] by simp
qed

text \<open>
  Without a field argument, or with a falsy one, the call on a key without an entry
  returns \<^verbatim>\<open>undefined\<close>, as the claim says.
\<close>

lemma hashGet_absent_without_field:
  assumes "checkKeyValidity key = Inr ()"
    and "store s key = None"
    and "\<not> truthy field"
  shows "hashGet key field s = (Inr Undefined, s\<lparr>calls := calls s @ [GetCall key]\<rparr>)"
  using assms by (simp add: hashGet_def await_get_valid await_simps return_def)

text \<open>
  Claim C9, where the class departs from it. The claim is that \<^verbatim>\<open>hashDel\<close> with a
  field that the decoded mapping does not have returns \<^verbatim>\<open>"Data not found"\<close> and writes
  nothing. The class tests \<^verbatim>\<open>hash[field] === undefined\<close>, which also sees what a plain
  object inherits. For every key that passes the validation and holds the JSON text of
  a mapping, and every name of \<^verbatim>\<open>Object.prototype\<close> that the mapping does not have as a
  property of its own: \<^verbatim>\<open>hashDel(key, name, {ttl})\<close> with a positive \<^verbatim>\<open>ttl\<close> writes the
  mapping back and returns \<^verbatim>\<open>"OK"\<close>.
\<close>

theorem hashDel_inherited_field_writes:
  assumes "checkKeyValidity key = Inr ()"
    and "store s key = Some (Text (Obj kvs))"
    and "json_members kvs"
    and "map_of kvs f = None"
    and "f \<in> set Object_prototype"
    and "opt_ttl opts = Some (Fin n)" and "0 < n"
  shows "hashDel key (Str f) (Some opts) s =
           (Inr (Str (str ''OK'')),
            s\<lparr>store := (store s)(key \<mapsto> Text (Obj kvs)),
              calls := calls s @ [GetCall key, SetCall key (Text (Obj kvs)) (Some (Fin n))]\<rparr>)"
proof -
  have ne: "f \<noteq> []"
    using assms(5) by (auto simp: Object_prototype_def str_def)
  have del: "AList.delete f kvs = kvs"
    using assms(4) by (simp add: delete_id map_of_eq_None_iff)
  have enc: "JSON_stringify (Obj kvs) = Text (Obj kvs)"
    using assms(3) by (simp add: JSON_stringify_def json_of_id)
  show ?thesis
    using assms(1,2,4,5,6,7) ne
    by (simp add: hashDel_def await_get_valid await_simps del enc await_set_cache_valid return_def)
qed

text \<open>\<^verbatim>\<open>hashDel("k", "toString", {ttl: 10})\<close> on the hash \<^verbatim>\<open>{"a": 1}\<close>.\<close>

theorem hashDel_inherited_field_writes_witness:
  "checkKeyValidity (Str (str ''k'')) = Inr () \<and>
   map_of [(str ''a'', Num (Fin 1))] (str ''toString'') = None \<and>
   fst (hashDel (Str (str ''k'')) (Str (str ''toString'')) (Some (no_options\<lparr>opt_ttl := Some (Fin 10)\<rparr>))
     \<lparr>store = [Str (str ''k'') \<mapsto> Text (Obj [(str ''a'', Num (Fin 1))])], calls = []\<rparr>) =
     Inr (Str (str ''OK'')) \<and>
   calls (snd (hashDel (Str (str ''k'')) (Str (str ''toString'')) (Some (no_options\<lparr>opt_ttl := Some (Fin 10)\<rparr>))
     \<lparr>store = [Str (str ''k'') \<mapsto> Text (Obj [(str ''a'', Num (Fin 1))])], calls = []\<rparr>)) =
     [GetCall (Str (str ''k'')),
      SetCall (Str (str ''k'')) (Text (Obj [(str ''a'', Num (Fin 1))])) (Some (Fin 10))]"
proof -
  have st: "store \<lparr>store = [Str (str ''k'') \<mapsto> Text (Obj [(str ''a'', Num (Fin 1))])], calls = []\<rparr>
      (Str (str ''k'')) = Some (Text (Obj [(str ''a'', Num (Fin 1))]))"
    by simp
  have j: "json_members [(str ''a'', Num (Fin 1))]"
    by simp
  have m: "map_of [(str ''a'', Num (Fin 1))] (str ''toString'') = None"
    by (simp add: str_def)
  have p: "str ''toString'' \<in> set Object_prototype"
    by (simp add: Object_prototype_def)
  have t: "opt_ttl (no_options\<lparr>opt_ttl := Some (Fin 10)\<rparr>) = Some (Fin 10)" "(0::int) < 10"
    by simp_all
  show ?thesis
    using valid_key_k m hashDel_inherited_field_writes [OF valid_key_k st j m p t] by simp
qed

text \<open>
  On a key without an entry, and for a name that the mapping neither has nor
  inherits, the call returns \<^verbatim>\<open>"Data not found"\<close> after the one read of the backend,
  as the claim says.
\<close>

lemma hashDel_data_not_found:
  assumes "checkKeyValidity key = Inr ()"
    and "f \<noteq> []"
    and "store s key = None \<or>
         store s key = Some (Text (Obj kvs)) \<and> map_of kvs f = None \<and> f \<notin> set Object_prototype"
  shows "hashDel key (Str f) options s =
           (Inr (Str (str ''Data not found'')), s\<lparr>calls := calls s @ [GetCall key]\<rparr>)"
  using assms
  by (auto simp: hashDel_def await_get_valid await_simps return_def)

section \<open>Lists\<close>

text \<open>
  Claim C3. For every key that passes the validation, every positive \<^verbatim>\<open>ttl\<close>, every
  stored sequence and every JSON value \<open>data\<close>: \<^verbatim>\<open>listSet(key, data, ttl, options)\<close>
  with neither \<^verbatim>\<open>index\<close> nor \<^verbatim>\<open>push\<close> in the options completes and writes the
  sequence with \<open>data\<close> put before its elements, and \<^verbatim>\<open>listGet(key)\<close> run next
  returns \<open>data\<close> followed by the elements in their order.
\<close>

theorem listSet_default_prepends:
  assumes "checkKeyValidity key = Inr ()"
    and "0 < n"
    and "store s key = Some (Text (Arr xs))"
    and "json_values xs"
    and "json_value data"
    and "opt_index options = None" and "opt_push options = None"
  shows "(\<exists>r. fst (listSet key data (Some (Fin n)) options s) = Inr r) \<and>
         store (snd (listSet key data (Some (Fin n)) options s)) key =
           Some (Text (Arr (data # xs))) \<and>
         fst (listGet key no_options (snd (listSet key data (Some (Fin n)) options s))) =
           Inr (Arr (data # xs))"
proof -
  have enc: "JSON_stringify (Arr (data # xs)) = Text (Arr (data # xs))"
    using assms(4,5) by (simp add: JSON_stringify_def json_of_id json_value_serializable)
  have run: "listSet key data (Some (Fin n)) options s =
      (Inr (Bool True),
       s\<lparr>store := (store s)(key \<mapsto> Text (Arr (data # xs))),
         calls := calls s @ [GetCall key,
           SetCall key (Text (Arr (data # xs))) (Some (Fin n))]\<rparr>)"
    using assms(1,2,3,6,7)
    by (simp add: listSet_def await_get_valid await_simps enc set_cache_valid)
  show ?thesis
    unfolding run using assms(1) by (simp add: listGet_whole)
qed

text \<open>\<^verbatim>\<open>listSet("k", "x", 10)\<close> on the list \<^verbatim>\<open>[1, 2]\<close>, then \<^verbatim>\<open>listGet("k")\<close>.\<close>

theorem listSet_default_prepends_witness:
  "checkKeyValidity (Str (str ''k'')) = Inr () \<and> (0::int) < 10 \<and>
   json_values [Num (Fin 1), Num (Fin 2)] \<and> json_value (Str (str ''x'')) \<and>
   fst (listGet (Str (str ''k'')) no_options
         (snd (listSet (Str (str ''k'')) (Str (str ''x'')) (Some (Fin 10)) no_options
                \<lparr>store = [Str (str ''k'') \<mapsto> Text (Arr [Num (Fin 1), Num (Fin 2)])],
                  calls = []\<rparr>))) = Inr (Arr [Str (str ''x''), Num (Fin 1), Num (Fin 2)])"
proof -
  have st: "store \<lparr>store = [Str (str ''k'') \<mapsto> Text (Arr [Num (Fin 1), Num (Fin 2)])], calls = []\<rparr>
      (Str (str ''k'')) = Some (Text (Arr [Num (Fin 1), Num (Fin 2)]))"
    by simp
  have n: "(0::int) < 10"
    by simp
  have j: "json_values [Num (Fin 1), Num (Fin 2)]" "json_value (Str (str ''x''))"
    by simp_all
  have o: "opt_index no_options = None" "opt_push no_options = None"
    by (simp_all add: no_options_def)
  show ?thesis
    using valid_key_k n j listSet_default_prepends [OF valid_key_k n st j o] by blast
qed

text \<open>
  Claim C7. For every key that passes the validation, every positive \<^verbatim>\<open>ttl\<close> and
  every stored sequence that is not empty: \<^verbatim>\<open>listDel(key, ttl, {index: 0})\<close> completes
  and writes the sequence without its first element, the others in their order, and
  \<^verbatim>\<open>listGet(key)\<close> run next returns them.
\<close>

theorem listDel_index_zero_removes_head:
  assumes "checkKeyValidity key = Inr ()"
    and "0 < n"
    and "store s key = Some (Text (Arr (x # xs)))"
    and "json_values xs"
  shows "fst (listDel key (Some (Fin n)) (no_options\<lparr>opt_index := Some (Fin 0)\<rparr>) s) =
           Inr Undefined \<and>
         store (snd (listDel key (Some (Fin n)) (no_options\<lparr>opt_index := Some (Fin 0)\<rparr>) s)) key =
           Some (Text (Arr xs)) \<and>
         fst (listGet key no_options
               (snd (listDel key (Some (Fin n)) (no_options\<lparr>opt_index := Some (Fin 0)\<rparr>) s))) =
           Inr (Arr xs)"
proof -
  have enc: "JSON_stringify (Arr xs) = Text (Arr xs)"
    using assms(4) by (simp add: JSON_stringify_def json_of_id)
  have cut: "splice (x # xs) (Fin 0) (Fin 1) = xs"
    by (simp add: splice_def rel_index_def)
  have run: "listDel key (Some (Fin n)) (no_options\<lparr>opt_index := Some (Fin 0)\<rparr>) s =
      (Inr Undefined,
       s\<lparr>store := (store s)(key \<mapsto> Text (Arr xs)),
         calls := calls s @ [GetCall key, SetCall key (Text (Arr xs)) (Some (Fin n))]\<rparr>)"
    using assms(1,2,3)
    by (simp add: listDel_def await_get_valid await_simps keys_length_def no_options_def
        cut enc await_set_cache_valid return_def)
  show ?thesis
    unfolding run using assms(1) by (simp add: listGet_whole)
qed

text \<open>\<^verbatim>\<open>listDel("k", 10, {index: 0})\<close> on the list \<^verbatim>\<open>[1, 2, 3]\<close>, then \<^verbatim>\<open>listGet("k")\<close>.\<close>

theorem listDel_index_zero_removes_head_witness:
  "checkKeyValidity (Str (str ''k'')) = Inr () \<and> (0::int) < 10 \<and>
   json_values [Num (Fin 2), Num (Fin 3)] \<and>
   fst (listGet (Str (str ''k'')) no_options
         (snd (listDel (Str (str ''k'')) (Some (Fin 10)) (no_options\<lparr>opt_index := Some (Fin 0)\<rparr>)
                \<lparr>store = [Str (str ''k'') \<mapsto> Text (Arr [Num (Fin 1), Num (Fin 2), Num (Fin 3)])],
                  calls = []\<rparr>))) = Inr (Arr [Num (Fin 2), Num (Fin 3)])"
proof -
  have st: "store \<lparr>store = [Str (str ''k'') \<mapsto> Text (Arr [Num (Fin 1), Num (Fin 2), Num (Fin 3)])],
      calls = []\<rparr> (Str (str ''k'')) = Some (Text (Arr (Num (Fin 1) # [Num (Fin 2), Num (Fin 3)])))"
    by simp
  have n: "(0::int) < 10"
    by simp
  have j: "json_values [Num (Fin 2), Num (Fin 3)]"
    by simp
  show ?thesis
    using valid_key_k n j listDel_index_zero_removes_head [OF valid_key_k n st j] by blast
qed

text \<open>
  Claim C6, where the class departs from it. The claim is that \<^verbatim>\<open>listGet\<close> with
  \<^verbatim>\<open>start\<close> and \<^verbatim>\<open>end\<close> returns the elements from index \<^verbatim>\<open>start\<close> through index
  \<^verbatim>\<open>end\<close>. The class tests both numbers for truthiness, so 0 counts as not given:
  for every key that passes the validation and every stored sequence,
  \<^verbatim>\<open>listGet(key, {start: 0, end: 0})\<close> returns the whole sequence and not its first
  element alone.
\<close>

theorem listGet_zero_range_returns_whole_list:
  assumes "checkKeyValidity key = Inr ()"
    and "store s key = Some (Text (Arr xs))"
    and "opt_index options = None"
    and "opt_start options = Some (Fin 0)"
    and "opt_end options = Some (Fin 0)"
  shows "fst (listGet key options s) = Inr (Arr xs)"
  using assms
  by (simp add: listGet_def await_get_valid await_simps keys_length_def return_def)

text \<open>\<^verbatim>\<open>listGet("k", {start: 0, end: 0})\<close> on the list \<^verbatim>\<open>[1, 2, 3]\<close>.\<close>

theorem listGet_zero_range_returns_whole_list_witness:
  "checkKeyValidity (Str (str ''k'')) = Inr () \<and>
   fst (listGet (Str (str ''k'')) (no_options\<lparr>opt_start := Some (Fin 0), opt_end := Some (Fin 0)\<rparr>)
     \<lparr>store = [Str (str ''k'') \<mapsto> Text (Arr [Num (Fin 1), Num (Fin 2), Num (Fin 3)])],
       calls = []\<rparr>) = Inr (Arr [Num (Fin 1), Num (Fin 2), Num (Fin 3)])"
proof -
  have st: "store \<lparr>store = [Str (str ''k'') \<mapsto> Text (Arr [Num (Fin 1), Num (Fin 2), Num (Fin 3)])],
       calls = []\<rparr> (Str (str ''k'')) = Some (Text (Arr [Num (Fin 1), Num (Fin 2), Num (Fin 3)]))"
    by simp
  have o: "opt_index (no_options\<lparr>opt_start := Some (Fin 0), opt_end := Some (Fin 0)\<rparr>) = None"
    "opt_start (no_options\<lparr>opt_start := Some (Fin 0), opt_end := Some (Fin 0)\<rparr>) = Some (Fin 0)"
    "opt_end (no_options\<lparr>opt_start := Some (Fin 0), opt_end := Some (Fin 0)\<rparr>) = Some (Fin 0)"
    by (simp_all add: no_options_def)
  show ?thesis
    using valid_key_k listGet_zero_range_returns_whole_list [OF valid_key_k st o] by blast
qed

text \<open>
  With \<^verbatim>\<open>start\<close> and \<^verbatim>\<open>end\<close> both from 1 on, and no \<^verbatim>\<open>index\<close>, the call returns the
  elements from index \<^verbatim>\<open>start\<close> through index \<^verbatim>\<open>end\<close>, as the claim says: with
  \<^verbatim>\<open>{start: 1, end: 3}\<close> those at the indices 1, 2 and 3.
\<close>

lemma slice_positive:
  assumes "1 \<le> a" "1 \<le> b"
  shows "slice xs (Fin a) (Fin (b + 1)) = take (nat b + 1 - nat a) (drop (nat a) xs)"
proof (cases "nat a \<le> length xs")
  case True
  then show ?thesis
    using assms by (auto simp: slice_def rel_index_def Let_def min_def nat_add_distrib)
next
  case False
  then show ?thesis
    using assms by (simp add: slice_def rel_index_def Let_def)
qed

lemma listGet_positive_range:
  assumes "checkKeyValidity key = Inr ()"
    and "store s key = Some (Text (Arr xs))"
    and "opt_index options = None"
    and "opt_start options = Some (Fin a)" and "1 \<le> a"
    and "opt_end options = Some (Fin b)" and "1 \<le> b"
  shows "fst (listGet key options s) = Inr (Arr (take (nat b + 1 - nat a) (drop (nat a) xs)))"
  using assms
  by (simp add: listGet_def await_get_valid await_simps keys_length_def return_def slice_positive)

lemma listGet_one_to_three:
  "fst (listGet (Str (str ''k'')) (no_options\<lparr>opt_start := Some (Fin 1), opt_end := Some (Fin 3)\<rparr>)
     \<lparr>store = [Str (str ''k'') \<mapsto>
         Text (Arr [Num (Fin 10), Num (Fin 11), Num (Fin 12), Num (Fin 13), Num (Fin 14)])],
       calls = []\<rparr>) = Inr (Arr [Num (Fin 11), Num (Fin 12), Num (Fin 13)])"
  using listGet_positive_range [OF valid_key_k, of
      "\<lparr>store = [Str (str ''k'') \<mapsto>
         Text (Arr [Num (Fin 10), Num (Fin 11), Num (Fin 12), Num (Fin 13), Num (Fin 14)])],
        calls = []\<rparr>"
      "[Num (Fin 10), Num (Fin 11), Num (Fin 12), Num (Fin 13), Num (Fin 14)]"
      "no_options\<lparr>opt_start := Some (Fin 1), opt_end := Some (Fin 3)\<rparr>" 1 3]
  by (simp add: no_options_def)

end
